theory Spec2Isabelle
  imports Main
begin

section \<open>Timestamps\<close>

text \<open>
  The program computes with naive \<^verbatim>\<open>datetime\<close> values. A \<^verbatim>\<open>datetime\<close> is modelled by
  the number of microseconds since \<^verbatim>\<open>datetime.min\<close> (0001-01-01 00:00:00); the type holds
  the instants up to \<^verbatim>\<open>datetime.max\<close> (9999-12-31 23:59:59.999999), that is 3652059 days.
  Comparison of naive datetimes is comparison of these numbers. A \<^verbatim>\<open>timedelta\<close> is a number
  of microseconds. Subtracting a \<^verbatim>\<open>timedelta\<close> from a \<^verbatim>\<open>datetime\<close> raises
  \<^verbatim>\<open>OverflowError\<close> when the result leaves the range of the type.
\<close>

type_synonym datetime = int
type_synonym timedelta = int

datatype error = OverflowError | NotFound

definition datetime_min :: datetime where
  "datetime_min = 0"

definition datetime_max :: datetime where
  "datetime_max = 3652059 * 86400000000 - 1"

definition valid_datetime :: "datetime \<Rightarrow> bool" where
  "valid_datetime t = (datetime_min \<le> t \<and> t \<le> datetime_max)"

definition days :: "int \<Rightarrow> timedelta" where
  "days n = n * 86400000000"

definition hours :: "int \<Rightarrow> timedelta" where
  "hours n = n * 3600000000"

definition datetime_sub :: "datetime \<Rightarrow> timedelta \<Rightarrow> error + datetime" where
  "datetime_sub t d =
     (if t - d < datetime_min \<or> datetime_max < t - d then Inl OverflowError
      else Inr (t - d))"

fun bind_result :: "'e + 'a \<Rightarrow> ('a \<Rightarrow> 'e + 'b) \<Rightarrow> 'e + 'b" where
  "bind_result (Inl e) f = Inl e"
| "bind_result (Inr x) f = f x"

section \<open>The poll model (pollbot/models/poll.py)\<close>

text \<open>
  The columns of the \<^verbatim>\<open>poll\<close> table that the Python code assigns or reads. The columns the
  database server fills by itself (\<^verbatim>\<open>id\<close>, \<^verbatim>\<open>uuid\<close>, \<^verbatim>\<open>created_at\<close>, \<^verbatim>\<open>updated_at\<close>,
  \<^verbatim>\<open>current_date\<close>) are not part of the record: the primary key is the key under which the
  session holds the row. A nullable column is an \<open>option\<close>. The owning user is represented
  by \<^verbatim>\<open>user_id\<close>.
\<close>

record poll =
  user_id :: int
  name :: "string option"
  description :: "string option"
  poll_locale :: string
  poll_type :: string
  anonymous :: bool
  number_of_votes :: "int option"
  allow_new_options :: bool
  option_sorting :: string
  user_sorting :: string
  results_visible :: bool
  show_percentage :: bool
  european_date_format :: bool
  created :: bool
  closed :: bool
  due_date :: "datetime option"
  next_notification :: "datetime option"
  expected_input :: "string option"
  in_settings :: bool

text \<open>
  \<^verbatim>\<open>Poll.__init__\<close>. The constructor assigns \<^verbatim>\<open>user\<close>, \<^verbatim>\<open>poll_type\<close>, \<^verbatim>\<open>anonymous\<close>,
  \<^verbatim>\<open>results_visible\<close>, \<^verbatim>\<open>user_sorting\<close> and \<^verbatim>\<open>option_sorting\<close>; the enum member names are
  the strings stored. Every other column has the value its \<^verbatim>\<open>Column\<close> declaration gives the
  inserted row: the declared default, or NULL for a nullable column without one.
\<close>

definition Poll_init :: "int \<Rightarrow> poll" where
  "Poll_init user =
     \<lparr> user_id = user,
       name = None,
       description = None,
       poll_locale = ''english'',
       poll_type = ''single_vote'',
       anonymous = False,
       number_of_votes = None,
       allow_new_options = False,
       option_sorting = ''option_chrono'',
       user_sorting = ''user_chrono'',
       results_visible = True,
       show_percentage = True,
       european_date_format = False,
       created = False,
       closed = False,
       due_date = None,
       next_notification = None,
       expected_input = None,
       in_settings = False \<rparr>"

text \<open>\<^verbatim>\<open>Poll.should_show_result\<close>: \<^verbatim>\<open>self.results_visible or self.closed\<close>.\<close>

definition should_show_result :: "poll \<Rightarrow> bool" where
  "should_show_result p = (results_visible p \<or> closed p)"

text \<open>
  A method assigns to its object in place, so an exception that leaves the method leaves
  the object as the assignments made it until then. The result of a method is \<open>Inr\<close> of the
  object when it returns and \<open>Inl\<close> of the exception and the object when it raises.
  \<open>eval_in self m f\<close> evaluates the expression \<open>m\<close> while the object is \<open>self\<close> and goes on
  with \<open>f\<close>; \<open>object_after\<close> is the object after the call in either case.
\<close>

fun eval_in :: "'o \<Rightarrow> error + 'a \<Rightarrow> ('a \<Rightarrow> (error \<times> 'o) + 'b) \<Rightarrow> (error \<times> 'o) + 'b" where
  "eval_in self (Inl e) f = Inl (e, self)"
| "eval_in self (Inr x) f = f x"

fun object_after :: "(error \<times> 'o) + 'o \<Rightarrow> 'o" where
  "object_after (Inl (e, self)) = self"
| "object_after (Inr self) = self"

text \<open>
  \<^verbatim>\<open>Poll.set_due_date\<close>. The current time \<^verbatim>\<open>datetime.now()\<close> is the argument \<open>now\<close>. The due
  date is assigned first; each comparison and each assignment evaluates its own
  \<^verbatim>\<open>self.due_date - timedelta(...)\<close>, in the order of the source. A subtraction that raises
  does so after the assignment of \<^verbatim>\<open>due_date\<close> and before any assignment of
  \<^verbatim>\<open>next_notification\<close>.
\<close>

definition set_due_date :: "poll \<Rightarrow> datetime \<Rightarrow> datetime \<Rightarrow> (error \<times> poll) + poll" where
  "set_due_date self date now =
     (let self = self\<lparr>due_date := Some date\<rparr> in
      eval_in self (datetime_sub date (days 7)) (\<lambda>t7.
        if now < t7 then
          eval_in self (datetime_sub date (days 7)) (\<lambda>v.
            Inr (self\<lparr>next_notification := Some v\<rparr>))
        else
          eval_in self (datetime_sub date (days 1)) (\<lambda>t1.
            if now < t1 then
              eval_in self (datetime_sub date (days 1)) (\<lambda>v.
                Inr (self\<lparr>next_notification := Some v\<rparr>))
            else
              eval_in self (datetime_sub date (hours 6)) (\<lambda>t6.
                if now < t6 then
                  eval_in self (datetime_sub date (hours 6)) (\<lambda>v.
                    Inr (self\<lparr>next_notification := Some v\<rparr>))
                else
                  Inr (self\<lparr>next_notification := Some date\<rparr>)))))"

text \<open>
  The invariant of the data model: \<open>next_notification\<close>, when it is not NULL, is at most
  \<open>due_date\<close> (which is then not NULL either).
\<close>

definition notification_inv :: "poll \<Rightarrow> bool" where
  "notification_inv p =
     (case next_notification p of
        None \<Rightarrow> True
      | Some n \<Rightarrow> (case due_date p of None \<Rightarrow> False | Some d \<Rightarrow> n \<le> d))"

section \<open>The session\<close>

text \<open>
  The handlers and \<^verbatim>\<open>Poll.clone\<close> work on objects held by an SQLAlchemy session. The
  session is modelled as the tables it holds: the polls by primary key, and the rows of the
  tables behind the relationships \<^verbatim>\<open>options\<close>, \<^verbatim>\<open>votes\<close>, \<^verbatim>\<open>references\<close> and
  \<^verbatim>\<open>notifications\<close>, each row naming the poll that owns it. A table is a list in ascending
  order of primary key; \<^verbatim>\<open>next_poll_id\<close> is the key the next added poll receives.
\<close>

text \<open>
  Modelled from the spec: the class \<^verbatim>\<open>PollOption\<close> is missing from the sources at hand.
  An option belongs to one poll (the spec's owned collection "Options"); of its columns the
  code reads \<^verbatim>\<open>name\<close> and \<^verbatim>\<open>is_date\<close>.
\<close>

record poll_option =
  poll_id :: nat
  option_name :: string
  is_date :: bool

text \<open>
  Modelled from the spec: the class \<^verbatim>\<open>Vote\<close> is missing from the sources at hand. The code
  uses only that a vote is owned by a poll (the spec's owned collection "Votes"), so a row
  keeps its own key and the key of its poll.
\<close>

record vote =
  vote_id :: nat
  vote_poll_id :: nat

text \<open>
  Modelled from the spec: the class \<^verbatim>\<open>Reference\<close> is missing from the sources at hand; a
  row of the owned collection "References" keeps its own key and the key of its poll.
\<close>

record reference =
  reference_id :: nat
  reference_poll_id :: nat

text \<open>
  Modelled from the spec: the class \<^verbatim>\<open>Notification\<close> is missing from the sources at hand;
  a row of the owned collection "Notifications" keeps its own key and the key of its poll.
\<close>

record notification =
  notification_id :: nat
  notification_poll_id :: nat

record session =
  poll_table :: "nat \<rightharpoonup> poll"
  poll_option_table :: "poll_option list"
  vote_table :: "vote list"
  reference_table :: "reference list"
  notification_table :: "notification list"
  next_poll_id :: nat

text \<open>The relationships of \<^verbatim>\<open>Poll\<close>; \<^verbatim>\<open>options\<close> is ordered by ascending option key.\<close>

definition options :: "session \<Rightarrow> nat \<Rightarrow> poll_option list" where
  "options s pid = filter (\<lambda>opt. poll_id opt = pid) (poll_option_table s)"

definition votes :: "session \<Rightarrow> nat \<Rightarrow> vote list" where
  "votes s pid = filter (\<lambda>v. vote_poll_id v = pid) (vote_table s)"

definition references :: "session \<Rightarrow> nat \<Rightarrow> reference list" where
  "references s pid = filter (\<lambda>r. reference_poll_id r = pid) (reference_table s)"

definition notifications :: "session \<Rightarrow> nat \<Rightarrow> notification list" where
  "notifications s pid = filter (\<lambda>n. notification_poll_id n = pid) (notification_table s)"

text \<open>
  \<^verbatim>\<open>session.add\<close> and \<^verbatim>\<open>session.delete\<close>. A poll that is added receives the next key;
  an added option goes to the end of its table (the highest key).
\<close>

definition session_add_poll :: "session \<Rightarrow> poll \<Rightarrow> session" where
  "session_add_poll s p =
     s\<lparr>poll_table := (poll_table s)(next_poll_id s \<mapsto> p),
       next_poll_id := Suc (next_poll_id s)\<rparr>"

definition session_add_option :: "session \<Rightarrow> poll_option \<Rightarrow> session" where
  "session_add_option s opt = s\<lparr>poll_option_table := poll_option_table s @ [opt]\<rparr>"

definition session_delete_vote :: "session \<Rightarrow> vote \<Rightarrow> session" where
  "session_delete_vote s v = s\<lparr>vote_table := removeAll v (vote_table s)\<rparr>"

text \<open>
  Modelled from the spec: the constructor \<^verbatim>\<open>PollOption(poll, name)\<close> is missing from the
  sources at hand. It "creates a corresponding new option under the new poll" with the name
  it is given. It is not given \<^verbatim>\<open>is_date\<close>; the value the new row has there is the
  parameter \<open>dflt\<close>.
\<close>

definition PollOption :: "bool \<Rightarrow> nat \<Rightarrow> string \<Rightarrow> poll_option" where
  "PollOption dflt pid nm = \<lparr> poll_id = pid, option_name = nm, is_date = dflt \<rparr>"

text \<open>
  A session is well formed when every key in use is below \<open>next_poll_id\<close>: the keys of the
  polls and the poll keys that the rows of the other tables name.
\<close>

definition wf_session :: "session \<Rightarrow> bool" where
  "wf_session s =
     ((\<forall>i. poll_table s i \<noteq> None \<longrightarrow> i < next_poll_id s)
      \<and> (\<forall>opt \<in> set (poll_option_table s). poll_id opt < next_poll_id s)
      \<and> (\<forall>v \<in> set (vote_table s). vote_poll_id v < next_poll_id s)
      \<and> (\<forall>r \<in> set (reference_table s). reference_poll_id r < next_poll_id s)
      \<and> (\<forall>n \<in> set (notification_table s). notification_poll_id n < next_poll_id s))"

definition session_inv :: "session \<Rightarrow> bool" where
  "session_inv s = (\<forall>i p. poll_table s i = Some p \<longrightarrow> notification_inv p)"

subsection \<open>\<^verbatim>\<open>Poll.clone\<close>\<close>

text \<open>The loop of \<^verbatim>\<open>clone\<close> over \<^verbatim>\<open>self.options\<close>; \<open>nid\<close> is the key of the new poll.\<close>

fun add_options :: "bool \<Rightarrow> session \<Rightarrow> nat \<Rightarrow> poll_option list \<Rightarrow> session" where
  "add_options dflt s nid [] = s"
| "add_options dflt s nid (opt # rest) =
     add_options dflt (session_add_option s (PollOption dflt nid (option_name opt))) nid rest"

text \<open>
  \<^verbatim>\<open>Poll.clone\<close> of the poll \<open>self\<close> stored under \<open>pid\<close>. The new poll is added to the session
  right after its construction and then assigned the copied columns; the result is the key
  of the new poll and the session.
\<close>

definition clone :: "bool \<Rightarrow> session \<Rightarrow> nat \<Rightarrow> poll \<Rightarrow> nat \<times> session" where
  "clone dflt s pid self =
     (let nid = next_poll_id s;
          poll = (Poll_init (user_id self))\<lparr>created := True\<rparr>;
          s1 = session_add_poll s poll;
          poll = poll\<lparr>name := name self,
                      description := description self,
                      poll_type := poll_type self,
                      anonymous := anonymous self,
                      number_of_votes := number_of_votes self,
                      allow_new_options := allow_new_options self,
                      option_sorting := option_sorting self,
                      user_sorting := user_sorting self,
                      results_visible := results_visible self,
                      show_percentage := show_percentage self\<rparr>;
          s2 = s1\<lparr>poll_table := (poll_table s1)(nid \<mapsto> poll)\<rparr>
      in (nid, add_options dflt s2 nid (options s pid)))"

section \<open>The handlers (pollbot/telegram/callback\_handler/management.py)\<close>

text \<open>
  What a handler does to the outside is recorded as a list of actions, in order:
  \<^verbatim>\<open>session.commit()\<close>, \<^verbatim>\<open>context.query.answer(i18n.t(key, ...))\<close> with the key of the
  message, \<^verbatim>\<open>update_poll_messages\<close> for a poll, and the \<^verbatim>\<open>send_message\<close> that shows a
  poll.
\<close>

datatype action =
  Commit
| Answer string
| UpdatePollMessages nat
| SendMessage nat

text \<open>
  Modelled from the spec: the decorator \<^verbatim>\<open>poll_required\<close> is missing from the sources at
  hand. Each operation "requires the poll to exist"; a poll that does not exist is the
  error NotFound. The decorated handler receives the poll found under the key.
\<close>

definition poll_required ::
  "(session \<Rightarrow> nat \<Rightarrow> poll \<Rightarrow> 'a) \<Rightarrow> session \<Rightarrow> nat \<Rightarrow> error + 'a" where
  "poll_required handler s pid =
     (case poll_table s pid of
        None \<Rightarrow> Inl NotFound
      | Some poll \<Rightarrow> Inr (handler s pid poll))"

definition close_poll :: "session \<Rightarrow> nat \<Rightarrow> poll \<Rightarrow> session \<times> action list" where
  "close_poll s pid poll =
     (s\<lparr>poll_table := (poll_table s)(pid \<mapsto> poll\<lparr>closed := True\<rparr>)\<rparr>,
      [Commit, UpdatePollMessages pid, Answer ''callback.closed''])"

definition reopen_poll ::
  "datetime \<Rightarrow> session \<Rightarrow> nat \<Rightarrow> poll \<Rightarrow> session \<times> action list" where
  "reopen_poll now s pid poll =
     (if \<not> results_visible poll then (s, [Answer ''callback.cannot_reopen''])
      else
        let poll = poll\<lparr>closed := False\<rparr>;
            poll = (case due_date poll of
                      None \<Rightarrow> poll
                    | Some d \<Rightarrow>
                        if d \<le> now
                        then poll\<lparr>due_date := None, next_notification := None\<rparr>
                        else poll)
        in (s\<lparr>poll_table := (poll_table s)(pid \<mapsto> poll)\<rparr>,
            [Commit, UpdatePollMessages pid]))"

text \<open>The loop of \<^verbatim>\<open>reset_poll\<close> over \<^verbatim>\<open>poll.votes\<close>.\<close>

fun delete_votes :: "session \<Rightarrow> vote list \<Rightarrow> session" where
  "delete_votes s [] = s"
| "delete_votes s (v # rest) = delete_votes (session_delete_vote s v) rest"

definition reset_poll :: "session \<Rightarrow> nat \<Rightarrow> poll \<Rightarrow> session \<times> action list" where
  "reset_poll s pid poll =
     (delete_votes s (votes s pid),
      [Commit, UpdatePollMessages pid, Answer ''callback.votes_removed''])"

definition clone_poll :: "bool \<Rightarrow> session \<Rightarrow> nat \<Rightarrow> poll \<Rightarrow> session \<times> action list" where
  "clone_poll dflt s pid poll =
     (let new_poll = clone dflt s pid poll
      in (snd new_poll, [Commit, SendMessage (fst new_poll), Answer ''callback.cloned'']))"

text \<open>
  \<^verbatim>\<open>Poll.set_due_date\<close> on the poll stored under \<open>pid\<close>. The session holds the object the
  method assigns to, so it holds what the method has assigned also when the method raises.
\<close>

definition set_due_date_in ::
  "session \<Rightarrow> nat \<Rightarrow> poll \<Rightarrow> datetime \<Rightarrow> datetime \<Rightarrow> (error \<times> session) + session" where
  "set_due_date_in s pid poll date now =
     (case set_due_date poll date now of
        Inl (e, poll') \<Rightarrow> Inl (e, s\<lparr>poll_table := (poll_table s)(pid \<mapsto> poll')\<rparr>)
      | Inr poll' \<Rightarrow> Inr (s\<lparr>poll_table := (poll_table s)(pid \<mapsto> poll')\<rparr>))"

text \<open>Concrete data for the examples below.\<close>

definition example_poll :: poll where
  "example_poll =
     (Poll_init 7)\<lparr>name := Some ''Lunch'', closed := True,
                  due_date := Some (days 738000), next_notification := Some (days 737993),
                  expected_input := Some ''name'', in_settings := True\<rparr>"

definition example_session :: session where
  "example_session =
     \<lparr> poll_table = [1 \<mapsto> example_poll, 2 \<mapsto> Poll_init 8],
       poll_option_table = [PollOption False 1 ''Pizza'', PollOption False 2 ''Tea'',
                            PollOption True 1 ''2024-01-10''],
       vote_table = [\<lparr>vote_id = 1, vote_poll_id = 1\<rparr>, \<lparr>vote_id = 2, vote_poll_id = 2\<rparr>,
                     \<lparr>vote_id = 3, vote_poll_id = 1\<rparr>],
       reference_table = [\<lparr>reference_id = 1, reference_poll_id = 1\<rparr>],
       notification_table = [\<lparr>notification_id = 1, notification_poll_id = 1\<rparr>],
       next_poll_id = 3 \<rparr>"

section \<open>Auxiliary facts\<close>

lemma datetime_sub_ok:
  "valid_datetime t \<Longrightarrow> 0 \<le> d \<Longrightarrow> d \<le> t \<Longrightarrow> datetime_sub t d = Inr (t - d)"
  by (simp add: datetime_sub_def valid_datetime_def datetime_min_def)

lemma set_due_date_value:
  assumes "valid_datetime D" and "days 7 \<le> D"
  shows "set_due_date p D N =
           Inr (p\<lparr>due_date := Some D,
                  next_notification := Some
                    (if N < D - days 7 then D - days 7
                     else if N < D - days 1 then D - days 1
                     else if N < D - hours 6 then D - hours 6
                     else D)\<rparr>)"
proof -
  have d7: "datetime_sub D (days 7) = Inr (D - days 7)"
    using assms by (intro datetime_sub_ok) (simp_all add: days_def)
  have d1: "datetime_sub D (days 1) = Inr (D - days 1)"
    using assms by (intro datetime_sub_ok) (simp_all add: days_def)
  have h6: "datetime_sub D (hours 6) = Inr (D - hours 6)"
    using assms by (intro datetime_sub_ok) (simp_all add: days_def hours_def)
  show ?thesis
    by (simp add: set_due_date_def d7 d1 h6)
qed

lemma set_due_date_raises:
  assumes "D < days 7"
  shows "set_due_date p D N = Inl (OverflowError, p\<lparr>due_date := Some D\<rparr>)"
proof -
  have "datetime_sub D (days 7) = Inl OverflowError"
    using assms by (simp add: datetime_sub_def datetime_min_def)
  then show ?thesis
    by (simp add: set_due_date_def)
qed

lemma datetime_sub_Inr: "datetime_sub t d = Inr r \<Longrightarrow> r = t - d"
  by (simp add: datetime_sub_def split: if_splits)

lemma set_due_date_inv:
  assumes "set_due_date p d now = Inr p'"
  shows "notification_inv p' \<and> due_date p' = Some d"
proof (cases "datetime_sub d (days 7)")
  case (Inl e)
  then show ?thesis using assms by (simp add: set_due_date_def)
next
  case s7: (Inr t7)
  have t7: "t7 = d - days 7" by (rule datetime_sub_Inr [OF s7])
  show ?thesis
  proof (cases "now < t7")
    case True
    then have "p' = p\<lparr>due_date := Some d, next_notification := Some t7\<rparr>"
      using assms s7 by (simp add: set_due_date_def)
    then show ?thesis by (simp add: notification_inv_def t7 days_def)
  next
    case n7: False
    show ?thesis
    proof (cases "datetime_sub d (days 1)")
      case (Inl e)
      then show ?thesis using assms s7 n7 by (simp add: set_due_date_def)
    next
      case s1: (Inr t1)
      have t1: "t1 = d - days 1" by (rule datetime_sub_Inr [OF s1])
      show ?thesis
      proof (cases "now < t1")
        case True
        then have "p' = p\<lparr>due_date := Some d, next_notification := Some t1\<rparr>"
          using assms s7 n7 s1 by (simp add: set_due_date_def)
        then show ?thesis by (simp add: notification_inv_def t1 days_def)
      next
        case n1: False
        show ?thesis
        proof (cases "datetime_sub d (hours 6)")
          case (Inl e)
          then show ?thesis using assms s7 n7 s1 n1 by (simp add: set_due_date_def)
        next
          case s6: (Inr t6)
          have t6: "t6 = d - hours 6" by (rule datetime_sub_Inr [OF s6])
          have "p' = p\<lparr>due_date := Some d, next_notification := Some t6\<rparr>
                \<or> p' = p\<lparr>due_date := Some d, next_notification := Some d\<rparr>"
            using assms s7 n7 s1 n1 s6 by (cases "now < t6") (simp_all add: set_due_date_def)
          then show ?thesis by (auto simp add: notification_inv_def t6 hours_def)
        qed
      qed
    qed
  qed
qed

lemma add_options_eq:
  "add_options dflt s nid os =
     s\<lparr>poll_option_table :=
         poll_option_table s @ map (\<lambda>opt. PollOption dflt nid (option_name opt)) os\<rparr>"
  by (induction os arbitrary: s) (simp_all add: session_add_option_def)

lemma delete_votes_eq:
  "delete_votes s vs = s\<lparr>vote_table := filter (\<lambda>v. v \<notin> set vs) (vote_table s)\<rparr>"
proof (induction vs arbitrary: s)
  case Nil
  show ?case by simp
next
  case (Cons v vs)
  have "filter (\<lambda>w. w \<notin> set vs) (removeAll v (vote_table s))
          = filter (\<lambda>w. w \<notin> set (v # vs)) (vote_table s)"
    by (simp add: removeAll_filter_not_eq) (rule filter_cong, auto)
  then show ?case
    by (simp add: Cons.IH session_delete_vote_def)
qed

lemma reset_poll_session:
  "fst (reset_poll s pid p) =
     s\<lparr>vote_table := filter (\<lambda>v. vote_poll_id v \<noteq> pid) (vote_table s)\<rparr>"
proof -
  have "filter (\<lambda>v. v \<notin> set (votes s pid)) (vote_table s)
          = filter (\<lambda>v. vote_poll_id v \<noteq> pid) (vote_table s)"
    by (rule filter_cong) (auto simp add: votes_def)
  then show ?thesis
    by (simp add: reset_poll_def delete_votes_eq)
qed

lemma clone_eq:
  "clone dflt s pid p =
     (next_poll_id s,
      s\<lparr>poll_table := (poll_table s)(next_poll_id s \<mapsto>
          (Poll_init (user_id p))
            \<lparr>created := True, name := name p, description := description p,
             poll_type := poll_type p, anonymous := anonymous p,
             number_of_votes := number_of_votes p,
             allow_new_options := allow_new_options p,
             option_sorting := option_sorting p, user_sorting := user_sorting p,
             results_visible := results_visible p, show_percentage := show_percentage p\<rparr>),
        next_poll_id := Suc (next_poll_id s),
        poll_option_table := poll_option_table s
          @ map (\<lambda>opt. PollOption dflt (next_poll_id s) (option_name opt)) (options s pid)\<rparr>)"
  by (simp add: clone_def Let_def add_options_eq session_add_poll_def)

lemma clone_fst: "fst (clone dflt s pid p) = next_poll_id s"
  by (simp add: clone_eq)

lemma clone_row:
  "poll_table (snd (clone dflt s pid p)) (next_poll_id s) =
     Some ((Poll_init (user_id p))
            \<lparr>created := True, name := name p, description := description p,
             poll_type := poll_type p, anonymous := anonymous p,
             number_of_votes := number_of_votes p,
             allow_new_options := allow_new_options p,
             option_sorting := option_sorting p, user_sorting := user_sorting p,
             results_visible := results_visible p, show_percentage := show_percentage p\<rparr>)"
  by (simp add: clone_eq)

lemma clone_rows_old:
  "i \<noteq> next_poll_id s \<Longrightarrow> poll_table (snd (clone dflt s pid p)) i = poll_table s i"
  by (simp add: clone_eq)

lemma clone_tables:
  "vote_table (snd (clone dflt s pid p)) = vote_table s"
  "reference_table (snd (clone dflt s pid p)) = reference_table s"
  "notification_table (snd (clone dflt s pid p)) = notification_table s"
  by (simp_all add: clone_eq)

lemma filter_fresh:
  "\<forall>x \<in> set xs. f x < (n::nat) \<Longrightarrow> filter (\<lambda>x. f x = n) xs = []"
  by (induction xs) auto

lemma filter_old:
  "i \<noteq> n \<Longrightarrow>
     filter (\<lambda>opt. poll_id opt = i) (map (\<lambda>opt. PollOption dflt n (g opt)) os) = []"
  by (induction os) (auto simp add: PollOption_def)

lemma filter_new:
  "filter (\<lambda>opt. poll_id opt = n) (map (\<lambda>opt. PollOption dflt n (g opt)) os)
     = map (\<lambda>opt. PollOption dflt n (g opt)) os"
  by (induction os) (auto simp add: PollOption_def)

lemma clone_options_new:
  assumes "wf_session s"
  shows "options (snd (clone dflt s pid p)) (next_poll_id s)
           = map (\<lambda>opt. PollOption dflt (next_poll_id s) (option_name opt)) (options s pid)"
proof -
  have "filter (\<lambda>opt. poll_id opt = next_poll_id s) (poll_option_table s) = []"
    using assms by (intro filter_fresh) (simp add: wf_session_def)
  then show ?thesis
    by (simp add: clone_eq options_def filter_new)
qed

lemma clone_options_old:
  "i \<noteq> next_poll_id s \<Longrightarrow> options (snd (clone dflt s pid p)) i = options s i"
  by (simp add: clone_eq options_def filter_old)

lemma wf_exists_below:
  "wf_session s \<Longrightarrow> poll_table s pid = Some p \<Longrightarrow> pid < next_poll_id s"
  by (simp add: wf_session_def)

lemma session_inv_update:
  "session_inv s \<Longrightarrow> notification_inv q \<Longrightarrow>
     session_inv (s\<lparr>poll_table := (poll_table s)(pid \<mapsto> q)\<rparr>)"
  by (simp add: session_inv_def)

lemma session_inv_lookup:
  "session_inv s \<Longrightarrow> poll_table s pid = Some p \<Longrightarrow> notification_inv p"
  by (simp add: session_inv_def)

lemma reopen_poll_row:
  assumes "poll_table s pid = Some p"
  shows "\<exists>q. poll_table (fst (reopen_poll now s pid p)) pid = Some q
      \<and> ((due_date q = None \<and> next_notification q = None)
         \<or> (due_date q = due_date p \<and> next_notification q = next_notification p))"
  using assms by (simp add: reopen_poll_def Let_def split: option.splits)

lemma reopen_poll_inv:
  assumes "session_inv s" and "poll_table s pid = Some p"
  shows "session_inv (fst (reopen_poll now s pid p))"
proof -
  have p: "notification_inv p" by (rule session_inv_lookup [OF assms])
  have "notification_inv (p\<lparr>closed := False\<rparr>)"
    using p by (simp add: notification_inv_def split: option.splits)
  moreover
  have "notification_inv (p\<lparr>closed := False, due_date := None, next_notification := None\<rparr>)"
    by (simp add: notification_inv_def)
  ultimately show ?thesis
    using assms(1) by (simp add: reopen_poll_def Let_def session_inv_update split: option.splits)
qed

lemma close_poll_inv:
  assumes "session_inv s" and "poll_table s pid = Some p"
  shows "session_inv (fst (close_poll s pid p))"
proof -
  have "notification_inv (p\<lparr>closed := True\<rparr>)"
    using session_inv_lookup [OF assms] by (simp add: notification_inv_def split: option.splits)
  then show ?thesis
    using assms(1) by (simp add: close_poll_def session_inv_update)
qed

lemma reset_poll_inv:
  "session_inv s \<Longrightarrow> session_inv (fst (reset_poll s pid p))"
  by (simp add: reset_poll_session session_inv_def)

lemma clone_inv:
  "session_inv s \<Longrightarrow> session_inv (snd (clone dflt s pid p))"
  by (simp add: clone_eq session_inv_def Poll_init_def notification_inv_def)

lemma set_due_date_in_inv:
  assumes "session_inv s" and "set_due_date_in s pid p d now = Inr s'"
  shows "session_inv s'"
proof (cases "set_due_date p d now")
  case (Inl e)
  then show ?thesis using assms(2) by (simp add: set_due_date_in_def split: prod.splits)
next
  case (Inr p')
  then have "notification_inv p'" by (simp add: set_due_date_inv)
  then show ?thesis
    using assms Inr by (auto simp add: set_due_date_in_def session_inv_update)
qed

lemma wf_example: "wf_session example_session"
  by (simp add: wf_session_def example_session_def PollOption_def)

lemma session_inv_example: "session_inv example_session"
  by (auto simp add: session_inv_def example_session_def example_poll_def Poll_init_def
        notification_inv_def days_def split: if_splits)

lemma example_lookup: "poll_table example_session 1 = Some example_poll"
  by (simp add: example_session_def)

lemma example_lookup2: "poll_table example_session 2 = Some (Poll_init 8)"
  by (simp add: example_session_def)

section \<open>The due-date scheduler\<close>

text \<open>
  C1 (as amended). For every due date \<open>D\<close> that lies at least 7 days after \<^verbatim>\<open>datetime.min\<close>
  and every current time \<open>N\<close>, \<open>set_due_date\<close> returns normally, stores \<open>D\<close> as the due date and
  stores as next notification \<open>D\<close> minus 7 days if \<open>N\<close> is before \<open>D\<close> minus 7 days, else \<open>D\<close> minus
  1 day if \<open>N\<close> is before \<open>D\<close> minus 1 day, else \<open>D\<close> minus 6 hours if \<open>N\<close> is before \<open>D\<close> minus
  6 hours, else \<open>D\<close> itself. The value is one of these four, is at most \<open>D\<close>, and each of the
  four values is the result on exactly one of four intervals of \<open>N\<close> that together cover
  every \<open>N\<close>, also those after \<open>D\<close>. For every due date less than 7 days after
  \<^verbatim>\<open>datetime.min\<close> and every \<open>N\<close>, the first comparison raises \<^verbatim>\<open>OverflowError\<close>, with the due
  date assigned and nothing else.
\<close>

theorem set_due_date_next_notification:
  "(valid_datetime D \<and> days 7 \<le> D \<longrightarrow>
      (\<exists>n. set_due_date p D N = Inr (p\<lparr>due_date := Some D, next_notification := Some n\<rparr>)
           \<and> n = (if N < D - days 7 then D - days 7
                  else if N < D - days 1 then D - days 1
                  else if N < D - hours 6 then D - hours 6
                  else D)
           \<and> n \<in> {D - days 7, D - days 1, D - hours 6, D}
           \<and> n \<le> D
           \<and> valid_datetime n
           \<and> (n = D - days 7) = (N < D - days 7)
           \<and> (n = D - days 1) = (D - days 7 \<le> N \<and> N < D - days 1)
           \<and> (n = D - hours 6) = (D - days 1 \<le> N \<and> N < D - hours 6)
           \<and> (n = D) = (D - hours 6 \<le> N)))
   \<and> (D < days 7 \<longrightarrow> set_due_date p D N = Inl (OverflowError, p\<lparr>due_date := Some D\<rparr>))"
proof (intro conjI impI)
  assume a: "valid_datetime D \<and> days 7 \<le> D"
  then have v: "valid_datetime D" and w: "days 7 \<le> D" by simp_all
  show "\<exists>n. set_due_date p D N = Inr (p\<lparr>due_date := Some D, next_notification := Some n\<rparr>)
           \<and> n = (if N < D - days 7 then D - days 7
                  else if N < D - days 1 then D - days 1
                  else if N < D - hours 6 then D - hours 6
                  else D)
           \<and> n \<in> {D - days 7, D - days 1, D - hours 6, D}
           \<and> n \<le> D
           \<and> valid_datetime n
           \<and> (n = D - days 7) = (N < D - days 7)
           \<and> (n = D - days 1) = (D - days 7 \<le> N \<and> N < D - days 1)
           \<and> (n = D - hours 6) = (D - days 1 \<le> N \<and> N < D - hours 6)
           \<and> (n = D) = (D - hours 6 \<le> N)"
    using v w set_due_date_value [OF v w, of p N]
    by (auto simp add: days_def hours_def valid_datetime_def datetime_min_def)
next
  assume "D < days 7"
  then show "set_due_date p D N = Inl (OverflowError, p\<lparr>due_date := Some D\<rparr>)"
    by (rule set_due_date_raises)
qed

theorem set_due_date_next_notification_witness:
  "valid_datetime (days 738000) \<and> days 7 \<le> days 738000
   \<and> set_due_date example_poll (days 738000) (days 737999 + hours 2)
       = Inr (example_poll\<lparr>due_date := Some (days 738000),
                           next_notification := Some (days 737999 + hours 18)\<rparr>)
   \<and> valid_datetime (days 5) \<and> days 5 < days 7
   \<and> set_due_date example_poll (days 5) (days 738000)
       = Inl (OverflowError, example_poll\<lparr>due_date := Some (days 5)\<rparr>)"
proof -
  have h: "valid_datetime (days 738000) \<and> days 7 \<le> days 738000"
    "valid_datetime (days 5)" "days 5 < days 7"
    by (simp_all add: valid_datetime_def datetime_min_def datetime_max_def days_def)
  have a: "set_due_date example_poll (days 738000) (days 737999 + hours 2)
       = Inr (example_poll\<lparr>due_date := Some (days 738000),
                           next_notification := Some (days 737999 + hours 18)\<rparr>)"
    using set_due_date_next_notification [of "days 738000" example_poll "days 737999 + hours 2"]
      h(1)
    by (simp add: days_def hours_def)
  have b: "set_due_date example_poll (days 5) (days 738000)
       = Inl (OverflowError, example_poll\<lparr>due_date := Some (days 5)\<rparr>)"
    using set_due_date_next_notification [of "days 5" example_poll "days 738000"] h(3)
    by blast
  show ?thesis
    using a b h by blast
qed

text \<open>
  The due date 0001-01-03 and the current time 0001-01-02 are both values of the type, and
  the first comparison of \<open>set_due_date\<close> raises: seven days before the due date there is no
  \<^verbatim>\<open>datetime\<close>.
\<close>

theorem set_due_date_overflow_counterexample:
  "valid_datetime (days 2) \<and> valid_datetime (days 1)
   \<and> set_due_date (Poll_init 1) (days 2) (days 1)
       = Inl (OverflowError, (Poll_init 1)\<lparr>due_date := Some (days 2)\<rparr>)"
  by (simp add: set_due_date_def datetime_sub_def datetime_min_def datetime_max_def
        valid_datetime_def days_def)

text \<open>
  C8. With the current time fixed, calling \<open>set_due_date\<close> a second time with the same date
  on the poll the first call returned gives the same poll as the first call alone, so the
  same \<open>due_date\<close> and \<open>next_notification\<close>; where the first call raises, so does the
  sequence. Calling it again on the object the first call left, whether that call returned
  or raised, gives the outcome of the first call, with the same object.
\<close>

theorem set_due_date_idempotent:
  "bind_result (set_due_date p d now) (\<lambda>p'. set_due_date p' d now) = set_due_date p d now
   \<and> set_due_date (object_after (set_due_date p d now)) d now = set_due_date p d now"
  by (cases "datetime_sub d (days 7)"; cases "datetime_sub d (days 1)";
      cases "datetime_sub d (hours 6)")
     (simp_all add: set_due_date_def Let_def cong: if_cong)

text \<open>
  C10. A poll shows its results exactly when \<open>results_visible\<close> is true or \<open>closed\<close> is true;
  in particular a closed poll shows its results even when \<open>results_visible\<close> is false, and
  the poll that \<open>close_poll\<close> stores shows them whatever \<open>results_visible\<close> was.
\<close>

theorem should_show_result_iff:
  "should_show_result p = (results_visible p \<or> closed p)
   \<and> should_show_result (p\<lparr>results_visible := False, closed := True\<rparr>)
   \<and> \<not> should_show_result (p\<lparr>results_visible := False, closed := False\<rparr>)
   \<and> poll_table (fst (close_poll s pid p)) pid = Some (p\<lparr>closed := True\<rparr>)
   \<and> should_show_result (p\<lparr>closed := True\<rparr>)"
  by (simp add: should_show_result_def close_poll_def)

section \<open>Closing and reopening\<close>

text \<open>
  C9. \<open>close_poll\<close> sets \<open>closed\<close> to true on the poll and changes no other column and no
  other row; on a poll that is already closed it leaves the session as it is; closing twice
  gives the same session and the same actions as closing once.
\<close>

theorem close_poll_idempotent:
  assumes "poll_table s pid = Some p"
  shows "fst (close_poll s pid p) = s\<lparr>poll_table := (poll_table s)(pid \<mapsto> p\<lparr>closed := True\<rparr>)\<rparr>
       \<and> (closed p \<longrightarrow> fst (close_poll s pid p) = s)
       \<and> bind_result (poll_required close_poll s pid)
            (\<lambda>r. poll_required close_poll (fst r) pid)
          = poll_required close_poll s pid"
proof -
  have same: "fst (close_poll s pid p) = s" if "closed p"
  proof -
    have "p\<lparr>closed := True\<rparr> = p" using that by simp
    moreover have "(poll_table s)(pid \<mapsto> p) = poll_table s"
      using assms by (simp add: fun_upd_idem)
    ultimately show ?thesis by (simp add: close_poll_def)
  qed
  have twice: "bind_result (poll_required close_poll s pid)
                 (\<lambda>r. poll_required close_poll (fst r) pid)
               = poll_required close_poll s pid"
    using assms by (simp add: close_poll_def poll_required_def)
  show ?thesis
    using same twice by (simp add: close_poll_def)
qed

theorem close_poll_idempotent_witness:
  "poll_table example_session 1 = Some example_poll \<and> closed example_poll
   \<and> fst (close_poll example_session 1 example_poll) = example_session
   \<and> poll_table example_session 2 = Some (Poll_init 8) \<and> \<not> closed (Poll_init 8)
   \<and> poll_table (fst (close_poll example_session 2 (Poll_init 8))) 2
       = Some ((Poll_init 8)\<lparr>closed := True\<rparr>)"
proof -
  have c: "closed example_poll"
    by (simp add: example_poll_def)
  have o: "\<not> closed (Poll_init 8)"
    by (simp add: Poll_init_def)
  have same: "fst (close_poll example_session 1 example_poll) = example_session"
    using close_poll_idempotent [OF example_lookup] c by blast
  have "fst (close_poll example_session 2 (Poll_init 8))
          = example_session\<lparr>poll_table :=
              (poll_table example_session)(2 \<mapsto> (Poll_init 8)\<lparr>closed := True\<rparr>)\<rparr>"
    using close_poll_idempotent [OF example_lookup2] by blast
  then have row: "poll_table (fst (close_poll example_session 2 (Poll_init 8))) 2
          = Some ((Poll_init 8)\<lparr>closed := True\<rparr>)"
    by simp
  show ?thesis
    using same row c o example_lookup example_lookup2 by blast
qed

text \<open>
  C2. On a poll with \<open>results_visible\<close> false, \<open>reopen_poll\<close> answers the query with the
  "cannot reopen" message, which it does on no poll with visible results, commits nothing
  and leaves the session as it was: a closed poll stays closed, and its \<open>due_date\<close> and
  \<open>next_notification\<close> are untouched.
\<close>

theorem reopen_poll_hidden_results:
  assumes "\<not> results_visible p"
  shows "reopen_poll now s pid p = (s, [Answer ''callback.cannot_reopen''])
       \<and> Commit \<notin> set (snd (reopen_poll now s pid p))
       \<and> (\<forall>p'. results_visible p' \<longrightarrow>
             Answer ''callback.cannot_reopen'' \<notin> set (snd (reopen_poll now s pid p')))
       \<and> (poll_table s pid = Some p \<and> closed p \<longrightarrow>
             (\<exists>q. poll_table (fst (reopen_poll now s pid p)) pid = Some q \<and> closed q
                \<and> due_date q = due_date p \<and> next_notification q = next_notification p))"
  using assms by (simp add: reopen_poll_def Let_def split: option.splits)

theorem reopen_poll_hidden_results_witness:
  "\<not> results_visible (example_poll\<lparr>results_visible := False\<rparr>)
   \<and> closed (example_poll\<lparr>results_visible := False\<rparr>)
   \<and> results_visible example_poll
   \<and> reopen_poll (days 738001)
        (example_session\<lparr>poll_table := [1 \<mapsto> example_poll\<lparr>results_visible := False\<rparr>]\<rparr>) 1
        (example_poll\<lparr>results_visible := False\<rparr>)
      = (example_session\<lparr>poll_table := [1 \<mapsto> example_poll\<lparr>results_visible := False\<rparr>]\<rparr>,
         [Answer ''callback.cannot_reopen''])
   \<and> Answer ''callback.cannot_reopen''
        \<notin> set (snd (reopen_poll (days 738001)
             (example_session\<lparr>poll_table := [1 \<mapsto> example_poll\<lparr>results_visible := False\<rparr>]\<rparr>) 1
             example_poll))"
proof -
  have h: "\<not> results_visible (example_poll\<lparr>results_visible := False\<rparr>)"
    by simp
  have v: "results_visible example_poll" "closed (example_poll\<lparr>results_visible := False\<rparr>)"
    by (simp_all add: example_poll_def Poll_init_def)
  show ?thesis
    using reopen_poll_hidden_results [OF h, of "days 738001"
        "example_session\<lparr>poll_table := [1 \<mapsto> example_poll\<lparr>results_visible := False\<rparr>]\<rparr>" 1] v
    by simp
qed

text \<open>
  C3. On a poll with \<open>results_visible\<close> true, \<open>reopen_poll\<close> sets \<open>closed\<close> to false. When the
  poll has a due date that is in the past at the time of reopening, \<open>due_date\<close> and
  \<open>next_notification\<close> both become NULL and nothing else changes (no new notification is
  computed); when the due date is in the future or NULL, they stay as they are.
\<close>

theorem reopen_poll_visible_results:
  assumes "results_visible p"
  shows "(\<forall>d. due_date p = Some d \<and> d < now \<longrightarrow>
            fst (reopen_poll now s pid p) =
              s\<lparr>poll_table := (poll_table s)
                   (pid \<mapsto> p\<lparr>closed := False, due_date := None, next_notification := None\<rparr>)\<rparr>)
       \<and> (due_date p = None \<or> (\<exists>d. due_date p = Some d \<and> now < d) \<longrightarrow>
            fst (reopen_poll now s pid p) =
              s\<lparr>poll_table := (poll_table s)(pid \<mapsto> p\<lparr>closed := False\<rparr>)\<rparr>)
       \<and> snd (reopen_poll now s pid p) = [Commit, UpdatePollMessages pid]"
  using assms by (auto simp add: reopen_poll_def Let_def)

theorem reopen_poll_visible_results_witness:
  "results_visible example_poll \<and> due_date example_poll = Some (days 738000)
   \<and> days 738000 < days 738001 \<and> days 737000 < days 738000
   \<and> poll_table (fst (reopen_poll (days 738001) example_session 1 example_poll)) 1
       = Some (example_poll\<lparr>closed := False, due_date := None, next_notification := None\<rparr>)
   \<and> poll_table (fst (reopen_poll (days 737000) example_session 1 example_poll)) 1
       = Some (example_poll\<lparr>closed := False\<rparr>)"
proof -
  have v: "results_visible example_poll"
    by (simp add: example_poll_def Poll_init_def)
  have d: "due_date example_poll = Some (days 738000)"
    by (simp add: example_poll_def)
  have lt: "days 738000 < days 738001" "days 737000 < days 738000"
    by (simp_all add: days_def)
  show ?thesis
    using reopen_poll_visible_results [OF v, of "days 738001" example_session 1]
      reopen_poll_visible_results [OF v, of "days 737000" example_session 1] v d lt
    by simp
qed

section \<open>Resetting the votes\<close>

text \<open>
  C7. \<open>reset_poll\<close> deletes every vote of the poll, so that the poll has no vote left, and
  changes nothing else: the votes of the other polls, all rows of polls (configuration and
  \<open>closed\<close> included), all options, references and notifications are as before. It has no
  failing path: for a poll that exists the decorated handler returns its result.
\<close>

theorem reset_poll_frame:
  "votes (fst (reset_poll s pid p)) pid = []
   \<and> length (votes (fst (reset_poll s pid p)) pid) = 0
   \<and> (\<forall>i. i \<noteq> pid \<longrightarrow> votes (fst (reset_poll s pid p)) i = votes s i)
   \<and> poll_table (fst (reset_poll s pid p)) = poll_table s
   \<and> poll_option_table (fst (reset_poll s pid p)) = poll_option_table s
   \<and> (\<forall>i. length (options (fst (reset_poll s pid p)) i) = length (options s i))
   \<and> reference_table (fst (reset_poll s pid p)) = reference_table s
   \<and> notification_table (fst (reset_poll s pid p)) = notification_table s
   \<and> next_poll_id (fst (reset_poll s pid p)) = next_poll_id s
   \<and> (poll_table s pid = Some p \<longrightarrow> poll_required reset_poll s pid = Inr (reset_poll s pid p))"
proof -
  have "\<And>i. i \<noteq> pid \<Longrightarrow>
          filter (\<lambda>v. vote_poll_id v = i) (filter (\<lambda>v. vote_poll_id v \<noteq> pid) (vote_table s))
            = filter (\<lambda>v. vote_poll_id v = i) (vote_table s)"
    by (simp) (rule filter_cong, auto)
  then show ?thesis
    by (simp add: reset_poll_session votes_def options_def poll_required_def)
qed

theorem reset_poll_frame_witness:
  "poll_table example_session 1 = Some example_poll
   \<and> length (votes example_session 1) = 2
   \<and> votes (fst (reset_poll example_session 1 example_poll)) 1 = []
   \<and> (2::nat) \<noteq> 1
   \<and> votes (fst (reset_poll example_session 1 example_poll)) 2
       = [\<lparr>vote_id = 2, vote_poll_id = 2\<rparr>]
   \<and> poll_required reset_poll example_session 1
       = Inr (reset_poll example_session 1 example_poll)"
proof -
  have before: "length (votes example_session 1) = 2"
    "votes example_session 2 = [\<lparr>vote_id = 2, vote_poll_id = 2\<rparr>]"
    by (simp_all add: votes_def example_session_def)
  have ne: "(2::nat) \<noteq> 1" by simp
  note r = reset_poll_frame [of example_session 1 example_poll]
  have a: "votes (fst (reset_poll example_session 1 example_poll)) 1 = []"
    using r by blast
  have "votes (fst (reset_poll example_session 1 example_poll)) 2 = votes example_session 2"
    using r ne by blast
  then have b: "votes (fst (reset_poll example_session 1 example_poll)) 2
       = [\<lparr>vote_id = 2, vote_poll_id = 2\<rparr>]"
    by (simp add: before)
  have c: "poll_required reset_poll example_session 1
       = Inr (reset_poll example_session 1 example_poll)"
    using r example_lookup by blast
  show ?thesis
    using a b c before(1) ne example_lookup by blast
qed

section \<open>Cloning\<close>

text \<open>
  C4. In a well-formed session, \<open>clone\<close> adds a poll of the same user that starts a fresh
  life: \<open>created\<close> is true, \<open>closed\<close> is false, \<open>due_date\<close> and \<open>next_notification\<close> are NULL,
  \<open>expected_input\<close> is NULL and \<open>in_settings\<close> is false whatever the source holds there, and
  the new poll has no votes, no notifications and no references.
\<close>

theorem clone_fresh_lifecycle:
  assumes "wf_session s"
  shows "\<exists>q. poll_table (snd (clone dflt s pid p)) (fst (clone dflt s pid p)) = Some q
           \<and> user_id q = user_id p
           \<and> created q \<and> \<not> closed q \<and> due_date q = None \<and> next_notification q = None
           \<and> expected_input q = None \<and> \<not> in_settings q
           \<and> votes (snd (clone dflt s pid p)) (fst (clone dflt s pid p)) = []
           \<and> notifications (snd (clone dflt s pid p)) (fst (clone dflt s pid p)) = []
           \<and> references (snd (clone dflt s pid p)) (fst (clone dflt s pid p)) = []"
proof -
  have v: "filter (\<lambda>v. vote_poll_id v = next_poll_id s) (vote_table s) = []"
    using assms by (intro filter_fresh) (simp add: wf_session_def)
  have n: "filter (\<lambda>n. notification_poll_id n = next_poll_id s) (notification_table s) = []"
    using assms by (intro filter_fresh) (simp add: wf_session_def)
  have r: "filter (\<lambda>r. reference_poll_id r = next_poll_id s) (reference_table s) = []"
    using assms by (intro filter_fresh) (simp add: wf_session_def)
  show ?thesis
    by (simp add: clone_fst clone_row clone_tables votes_def notifications_def references_def
          v n r Poll_init_def)
qed

theorem clone_fresh_lifecycle_witness:
  "wf_session example_session
   \<and> closed example_poll \<and> due_date example_poll = Some (days 738000)
   \<and> next_notification example_poll = Some (days 737993)
   \<and> expected_input example_poll = Some ''name'' \<and> in_settings example_poll
   \<and> length (votes example_session 1) = 2
   \<and> fst (clone False example_session 1 example_poll) = 3
   \<and> (\<exists>q. poll_table (snd (clone False example_session 1 example_poll)) 3 = Some q
          \<and> created q \<and> \<not> closed q \<and> due_date q = None \<and> next_notification q = None
          \<and> expected_input q = None \<and> \<not> in_settings q)
   \<and> votes (snd (clone False example_session 1 example_poll)) 3 = []
   \<and> notifications (snd (clone False example_session 1 example_poll)) 3 = []
   \<and> references (snd (clone False example_session 1 example_poll)) 3 = []"
proof -
  have src: "closed example_poll" "due_date example_poll = Some (days 738000)"
    "next_notification example_poll = Some (days 737993)"
    "expected_input example_poll = Some ''name''" "in_settings example_poll"
    by (simp_all add: example_poll_def)
  have len: "length (votes example_session 1) = 2"
    by (simp add: votes_def example_session_def)
  have nid: "fst (clone False example_session 1 example_poll) = 3"
    by (simp add: clone_fst example_session_def)
  show ?thesis
    using clone_fresh_lifecycle [OF wf_example, of False 1 example_poll] wf_example src len
    unfolding nid by blast
qed

text \<open>
  What \<open>clone\<close> copies. In a well-formed session, \<open>clone\<close> of an existing poll copies name,
  description, poll type, anonymity, number of votes, allow-new-options, option sorting,
  user sorting, results-visible and show-percentage to the new poll (locale and date format
  keep their defaults), and gives the new poll one option for each option of the source, in
  the same order and with the same name. The \<open>is_date\<close> of every new option is what the
  constructor sets, since \<open>clone\<close> passes the name only. Every poll but the new one, the
  options of every poll but the new one, and all votes, references and notifications are as
  before, and later writes to the source or to the clone do not reach the other.
\<close>

lemma clone_copies_columns_and_names:
  fixes s :: session and dflt :: bool and pid :: nat and p :: poll
  defines "nid \<equiv> fst (clone dflt s pid p)" and "s' \<equiv> snd (clone dflt s pid p)"
  assumes "wf_session s" and "poll_table s pid = Some p"
  shows "\<exists>q. poll_table s' nid = Some q
           \<and> name q = name p \<and> description q = description p \<and> poll_type q = poll_type p
           \<and> anonymous q = anonymous p \<and> number_of_votes q = number_of_votes p
           \<and> allow_new_options q = allow_new_options p
           \<and> option_sorting q = option_sorting p \<and> user_sorting q = user_sorting p
           \<and> results_visible q = results_visible p \<and> show_percentage q = show_percentage p
           \<and> poll_locale q = ''english'' \<and> \<not> european_date_format q
           \<and> map option_name (options s' nid) = map option_name (options s pid)
           \<and> (\<forall>opt \<in> set (options s' nid). is_date opt = dflt)
           \<and> nid \<noteq> pid
           \<and> (\<forall>i. i \<noteq> nid \<longrightarrow> poll_table s' i = poll_table s i \<and> options s' i = options s i)
           \<and> vote_table s' = vote_table s
           \<and> reference_table s' = reference_table s
           \<and> notification_table s' = notification_table s
           \<and> (\<forall>p' nm.
                 poll_table (session_add_option (s'\<lparr>poll_table := (poll_table s')(pid \<mapsto> p')\<rparr>)
                               (PollOption dflt pid nm)) nid = Some q
                 \<and> options (session_add_option (s'\<lparr>poll_table := (poll_table s')(pid \<mapsto> p')\<rparr>)
                               (PollOption dflt pid nm)) nid = options s' nid)
           \<and> (\<forall>q' nm.
                 poll_table (session_add_option (s'\<lparr>poll_table := (poll_table s')(nid \<mapsto> q')\<rparr>)
                               (PollOption dflt nid nm)) pid = Some p
                 \<and> options (session_add_option (s'\<lparr>poll_table := (poll_table s')(nid \<mapsto> q')\<rparr>)
                               (PollOption dflt nid nm)) pid = options s pid)"
proof -
  have ne: "pid \<noteq> next_poll_id s"
    using wf_exists_below [OF assms(3,4)] by simp
  have ne': "next_poll_id s \<noteq> pid" using ne by simp
  have opts: "options (snd (clone dflt s pid p)) (next_poll_id s)
      = map (\<lambda>opt. PollOption dflt (next_poll_id s) (option_name opt)) (options s pid)"
    by (rule clone_options_new [OF assms(3)])
  have names: "map option_name (options (snd (clone dflt s pid p)) (next_poll_id s))
      = map option_name (options s pid)"
    by (simp add: opts PollOption_def comp_def)
  have dates:
    "\<forall>opt \<in> set (options (snd (clone dflt s pid p)) (next_poll_id s)). is_date opt = dflt"
    by (auto simp add: opts PollOption_def)
  have old: "options (snd (clone dflt s pid p)) pid = options s pid"
    by (rule clone_options_old [OF ne])
  have add_other: "\<And>t i j nm. i \<noteq> j \<Longrightarrow>
      options (session_add_option t (PollOption dflt i nm)) j = options t j"
    by (simp add: options_def session_add_option_def PollOption_def)
  have add_polls: "\<And>t opt. poll_table (session_add_option t opt) = poll_table t"
    by (simp add: session_add_option_def)
  have upd: "\<And>t f. options (t\<lparr>poll_table := f\<rparr>) = options t"
    by (rule ext) (simp add: options_def)
  show ?thesis
    unfolding nid_def s'_def using ne ne' names dates old
    by (simp add: clone_fst clone_row clone_rows_old clone_options_old clone_tables
          Poll_init_def add_other add_polls upd assms(4))
qed

text \<open>
  C5. The options of the clone do not have the date value of their source options. The poll
  under key 1 has the options \<^verbatim>\<open>Pizza\<close>, which is no date, and \<^verbatim>\<open>2024-01-10\<close>, which is a
  date. Its clone has two options with these names in this order, and both have the same
  \<open>is_date\<close>, the one the constructor sets: whichever value that is, one of the two new
  options differs from its source option, and for the value \<open>False\<close> the clone of a poll
  with a date option has none.
\<close>

theorem clone_drops_is_date:
  "poll_table example_session 1 = Some example_poll
   \<and> map option_name (options example_session 1) = [''Pizza'', ''2024-01-10'']
   \<and> map is_date (options example_session 1) = [False, True]
   \<and> fst (clone False example_session 1 example_poll) = 3
   \<and> map option_name (options (snd (clone False example_session 1 example_poll)) 3)
       = [''Pizza'', ''2024-01-10'']
   \<and> map is_date (options (snd (clone False example_session 1 example_poll)) 3)
       = [False, False]
   \<and> fst (clone True example_session 1 example_poll) = 3
   \<and> map option_name (options (snd (clone True example_session 1 example_poll)) 3)
       = [''Pizza'', ''2024-01-10'']
   \<and> map is_date (options (snd (clone True example_session 1 example_poll)) 3)
       = [True, True]"
proof -
  have src: "options example_session 1
               = [PollOption False 1 ''Pizza'', PollOption True 1 ''2024-01-10'']"
    by (simp add: options_def example_session_def PollOption_def)
  have nxt: "next_poll_id example_session = 3"
    by (simp add: example_session_def)
  have new: "options (snd (clone dflt example_session 1 example_poll)) 3
               = [PollOption dflt 3 ''Pizza'', PollOption dflt 3 ''2024-01-10'']" for dflt
  proof -
    have "options (snd (clone dflt example_session 1 example_poll)) (next_poll_id example_session)
            = map (\<lambda>opt. PollOption dflt (next_poll_id example_session) (option_name opt))
                (options example_session 1)"
      by (rule clone_options_new [OF wf_example])
    then show ?thesis
      unfolding nxt src by (simp add: PollOption_def)
  qed
  show ?thesis
    unfolding src new clone_fst nxt
    using example_lookup by (simp add: PollOption_def)
qed

section \<open>The invariant\<close>

text \<open>
  C6 (as amended). The invariant "\<open>next_notification\<close>, when not NULL, is at most \<open>due_date\<close>"
  holds after every operation that returns. Every poll that \<open>set_due_date\<close> returns satisfies
  it, whatever the poll was before, and for every due date at least 7 days after
  \<^verbatim>\<open>datetime.min\<close> \<open>set_due_date\<close> does return such a poll, on any poll and in any session
  that holds it. In a session where every poll satisfies the invariant, every poll
  satisfies it after \<open>reopen_poll\<close> (which leaves the poll with both columns NULL or both
  as they were), after \<open>close_poll\<close>, after \<open>reset_poll\<close> and after \<open>clone\<close>.
\<close>

theorem notification_inv_preserved:
  assumes "session_inv s" and "poll_table s pid = Some p"
  shows "(\<forall>p0 p'. set_due_date p0 date now = Inr p' \<longrightarrow> notification_inv p')
       \<and> (valid_datetime date \<and> days 7 \<le> date \<longrightarrow>
            (\<forall>p0. \<exists>p'. set_due_date p0 date now = Inr p' \<and> notification_inv p')
            \<and> (\<exists>s'. set_due_date_in s pid p date now = Inr s' \<and> session_inv s'))
       \<and> (\<forall>s'. set_due_date_in s pid p date now = Inr s' \<longrightarrow> session_inv s')
       \<and> session_inv (fst (reopen_poll now s pid p))
       \<and> (\<exists>q. poll_table (fst (reopen_poll now s pid p)) pid = Some q
              \<and> ((due_date q = None \<and> next_notification q = None)
                 \<or> (due_date q = due_date p \<and> next_notification q = next_notification p)))
       \<and> session_inv (fst (close_poll s pid p))
       \<and> session_inv (fst (reset_poll s pid p))
       \<and> session_inv (snd (clone dflt s pid p))"
proof -
  have a: "\<forall>p0 p'. set_due_date p0 date now = Inr p' \<longrightarrow> notification_inv p'"
    by (simp add: set_due_date_inv)
  have c: "\<forall>s'. set_due_date_in s pid p date now = Inr s' \<longrightarrow> session_inv s'"
    using set_due_date_in_inv [OF assms(1)] by blast
  have b: "(\<forall>p0. \<exists>p'. set_due_date p0 date now = Inr p' \<and> notification_inv p')
            \<and> (\<exists>s'. set_due_date_in s pid p date now = Inr s' \<and> session_inv s')"
    if v: "valid_datetime date" and w: "days 7 \<le> date"
  proof -
    have ret: "\<exists>p'. set_due_date p0 date now = Inr p'" for p0
      by (simp add: set_due_date_value [OF v w])
    then have b1: "\<forall>p0. \<exists>p'. set_due_date p0 date now = Inr p' \<and> notification_inv p'"
      using a by blast
    obtain p' where p': "set_due_date p date now = Inr p'"
      using ret by blast
    then have "set_due_date_in s pid p date now
                 = Inr (s\<lparr>poll_table := (poll_table s)(pid \<mapsto> p')\<rparr>)"
      by (simp add: set_due_date_in_def)
    then have "\<exists>s'. set_due_date_in s pid p date now = Inr s' \<and> session_inv s'"
      using c by blast
    then show ?thesis using b1 by blast
  qed
  show ?thesis
    using a b c reopen_poll_inv [OF assms] reopen_poll_row [OF assms(2)] close_poll_inv [OF assms]
      reset_poll_inv [OF assms(1)] clone_inv [OF assms(1)]
    by blast
qed

theorem notification_inv_preserved_witness:
  "session_inv example_session \<and> poll_table example_session 1 = Some example_poll
   \<and> valid_datetime (days 739000) \<and> days 7 \<le> days 739000
   \<and> set_due_date_in example_session 1 example_poll (days 739000) (days 738001)
       = Inr (example_session\<lparr>poll_table := (poll_table example_session)
                (1 \<mapsto> example_poll\<lparr>due_date := Some (days 739000),
                                    next_notification := Some (days 738993)\<rparr>)\<rparr>)
   \<and> session_inv (example_session\<lparr>poll_table := (poll_table example_session)
                (1 \<mapsto> example_poll\<lparr>due_date := Some (days 739000),
                                    next_notification := Some (days 738993)\<rparr>)\<rparr>)
   \<and> session_inv (fst (reopen_poll (days 738001) example_session 1 example_poll))
   \<and> session_inv (fst (close_poll example_session 1 example_poll))
   \<and> session_inv (fst (reset_poll example_session 1 example_poll))
   \<and> session_inv (snd (clone False example_session 1 example_poll))"
proof -
  have v: "valid_datetime (days 739000)" "days 7 \<le> days 739000"
    by (simp_all add: valid_datetime_def datetime_min_def datetime_max_def days_def)
  have run: "set_due_date_in example_session 1 example_poll (days 739000) (days 738001)
       = Inr (example_session\<lparr>poll_table := (poll_table example_session)
                (1 \<mapsto> example_poll\<lparr>due_date := Some (days 739000),
                                    next_notification := Some (days 738993)\<rparr>)\<rparr>)"
  proof -
    have "set_due_date example_poll (days 739000) (days 738001)
            = Inr (example_poll\<lparr>due_date := Some (days 739000),
                                  next_notification := Some (days 738993)\<rparr>)"
      using set_due_date_value [OF v, of example_poll "days 738001"]
      by (simp add: days_def)
    then show ?thesis
      by (simp add: set_due_date_in_def)
  qed
  note i = notification_inv_preserved [OF session_inv_example example_lookup,
      of "days 739000" "days 738001" False]
  have after: "session_inv (example_session\<lparr>poll_table := (poll_table example_session)
                (1 \<mapsto> example_poll\<lparr>due_date := Some (days 739000),
                                    next_notification := Some (days 738993)\<rparr>)\<rparr>)"
    using i run by blast
  show ?thesis
    using i v run after session_inv_example example_lookup by blast
qed

text \<open>
  The poll under key 1 has the due date day 738000 and the next notification seven days
  before it. \<open>set_due_date\<close> with the due date 0001-01-03 raises after assigning the due date:
  the object in the session then has a next notification long after its due date.
\<close>

theorem notification_inv_broken_counterexample:
  "session_inv example_session \<and> poll_table example_session 1 = Some example_poll
   \<and> notification_inv example_poll
   \<and> set_due_date example_poll (days 2) (days 738001)
       = Inl (OverflowError, example_poll\<lparr>due_date := Some (days 2)\<rparr>)
   \<and> \<not> notification_inv (example_poll\<lparr>due_date := Some (days 2)\<rparr>)
   \<and> set_due_date_in example_session 1 example_poll (days 2) (days 738001)
       = Inl (OverflowError,
              example_session\<lparr>poll_table := (poll_table example_session)
                (1 \<mapsto> example_poll\<lparr>due_date := Some (days 2)\<rparr>)\<rparr>)
   \<and> \<not> session_inv (example_session\<lparr>poll_table := (poll_table example_session)
                (1 \<mapsto> example_poll\<lparr>due_date := Some (days 2)\<rparr>)\<rparr>)"
proof -
  have lt: "days 2 < days 7" by (simp add: days_def)
  have r: "set_due_date example_poll (days 2) (days 738001)
       = Inl (OverflowError, example_poll\<lparr>due_date := Some (days 2)\<rparr>)"
    by (rule set_due_date_raises [OF lt])
  have bad: "\<not> notification_inv (example_poll\<lparr>due_date := Some (days 2)\<rparr>)"
    by (simp add: notification_inv_def example_poll_def days_def)
  have good: "notification_inv example_poll"
    by (rule session_inv_lookup [OF session_inv_example example_lookup])
  have rs: "set_due_date_in example_session 1 example_poll (days 2) (days 738001)
       = Inl (OverflowError,
              example_session\<lparr>poll_table := (poll_table example_session)
                (1 \<mapsto> example_poll\<lparr>due_date := Some (days 2)\<rparr>)\<rparr>)"
    by (simp add: set_due_date_in_def r)
  have "poll_table (example_session\<lparr>poll_table := (poll_table example_session)
                (1 \<mapsto> example_poll\<lparr>due_date := Some (days 2)\<rparr>)\<rparr>) 1
          = Some (example_poll\<lparr>due_date := Some (days 2)\<rparr>)"
    by simp
  then have sbad: "\<not> session_inv (example_session\<lparr>poll_table := (poll_table example_session)
                (1 \<mapsto> example_poll\<lparr>due_date := Some (days 2)\<rparr>)\<rparr>)"
    using bad session_inv_lookup by blast
  show ?thesis
    using session_inv_example example_lookup good r bad rs sbad by blast
qed

end
